theory Spec2Isabelle
  imports Main "HOL-Library.AList"
begin

section \<open>Permission levels\<close>

text \<open>
  The enumeration \<^verbatim>\<open>Permission\<close> with its numeric values, and the two comparison
  methods the class defines (\<^verbatim>\<open>__lt__\<close>, \<^verbatim>\<open>__le__\<close>). Python evaluates
  \<^verbatim>\<open>a > b\<close> and \<^verbatim>\<open>a >= b\<close> on this class through the reflected methods
  \<^verbatim>\<open>b < a\<close> and \<^verbatim>\<open>b <= a\<close>, and \<^verbatim>\<open>max(a, b)\<close> returns \<^verbatim>\<open>b\<close> only when
  \<^verbatim>\<open>b > a\<close>.
\<close>

datatype Permission = Default | Moderator | Admin | Owner

fun value_of :: "Permission \<Rightarrow> int" where
  "value_of Default = 0"
| "value_of Moderator = 25"
| "value_of Admin = 50"
| "value_of Owner = 900"

definition Permission_lt :: "Permission \<Rightarrow> Permission \<Rightarrow> bool" where
  "Permission_lt self other = (value_of self < value_of other)"

definition Permission_le :: "Permission \<Rightarrow> Permission \<Rightarrow> bool" where
  "Permission_le self other = (value_of self \<le> value_of other)"

definition Permission_gt :: "Permission \<Rightarrow> Permission \<Rightarrow> bool" where
  "Permission_gt a b = Permission_lt b a"

definition Permission_ge :: "Permission \<Rightarrow> Permission \<Rightarrow> bool" where
  "Permission_ge a b = Permission_le b a"

definition py_max :: "Permission \<Rightarrow> Permission \<Rightarrow> Permission" where
  "py_max a b = (if Permission_gt b a then b else a)"

section \<open>Objects of the chat library\<close>

text \<open>
  Only what the source reads of them. A \<^verbatim>\<open>discord.Role\<close> compares equal to another
  role with the same id and to nothing else; a user and a guild member compare equal when
  their ids agree.
\<close>

record Role =
  role_id :: int

record User =
  user_id :: int
  bot :: bool
  user_str :: string

record Member =
  member_id :: int
  roles :: "Role list"

record Guild =
  members :: "Member list"

record DiscordLink =
  link_DEBUG :: bool
  client_user :: User
  guilds :: "int \<rightharpoonup> Guild"

record Message =
  author :: User
  content :: string
  channel :: nat

section \<open>Exceptions\<close>

datatype exn =
    AttributeError string
  | KeyError int
  | IndexError
  | Fault string

function str_nat :: "nat \<Rightarrow> string" where
  "str_nat n =
     (if n < 10 then [char_of (48 + n)]
      else str_nat (n div 10) @ [char_of (48 + n mod 10)])"
  by pat_completeness auto
termination
  by (relation "measure id") auto

definition str_int :: "int \<Rightarrow> string" where
  "str_int i = (if i < 0 then CHR ''-'' # str_nat (nat (- i)) else str_nat (nat i))"

fun exn_str :: "exn \<Rightarrow> string" where
  "exn_str (AttributeError s) = s"
| "exn_str (KeyError k) = str_int k"
| "exn_str IndexError = ''list index out of range''"
| "exn_str (Fault s) = s"

section \<open>Commands and the state of the link\<close>

text \<open>
  A command's callable is either the bound method \<^verbatim>\<open>self.help\<close>, registered by the
  constructor, or a callable of the embedding application, named by a number. What such a
  callable does is given by a table \<open>H\<close> passed to the dispatcher: it may read and change the
  whole state, raise, return nothing, or return a pair.
\<close>

datatype func = BoundHelp | Ext nat

record Command =
  name :: string
  permission :: Permission
  func :: func
  help_text :: string

text \<open>
  Keys of the role table as Python sees them: the table is filled with integer ids, and it
  is searched both with a role object (\<^verbatim>\<open>role in self._role_permissions\<close>) and with
  an integer (\<^verbatim>\<open>self._role_permissions[role.id]\<close>). A role object is never equal to
  an integer.
\<close>

datatype py_key = KInt int | KRole Role

text \<open>
  The fields of \<^verbatim>\<open>MCLink\<close>; the command table is kept in insertion order, as a Python
  dictionary is. The last three fields are the surroundings: what \<^verbatim>\<open>print\<close> has
  written, what has been sent to chat channels, and everything else the RCON transport and
  the application's callables act on.
\<close>

record 'w MCLink =
  DEBUG :: bool
  rcon_socket :: "nat option"
  link :: "DiscordLink option"
  guild_id :: "int option"
  bot_admins :: "int list"
  commands :: "(string \<times> Command) list"
  role_permissions :: "py_key \<rightharpoonup> Permission"
  console :: "string list"
  sent :: "(nat \<times> string) list"
  world :: 'w

type_synonym 'w handlers =
  "nat \<Rightarrow> 'w MCLink \<Rightarrow> string list \<Rightarrow> User \<Rightarrow> (exn + (bool \<times> string) option) \<times> 'w MCLink"

definition is_connected :: "'w MCLink \<Rightarrow> bool" where
  "is_connected st = (rcon_socket st \<noteq> None)"

definition close :: "(nat \<Rightarrow> 'w \<Rightarrow> 'w) \<Rightarrow> 'w MCLink \<Rightarrow> 'w MCLink" where
  "close socket_close st =
     (if is_connected st
      then st\<lparr>world := socket_close (the (rcon_socket st)) (world st), rcon_socket := None\<rparr>
      else st)"

definition log :: "'w MCLink \<Rightarrow> string \<Rightarrow> 'w MCLink" where
  "log st message = st\<lparr>console := console st @ [message]\<rparr>"

definition register_admin :: "'w MCLink \<Rightarrow> int \<Rightarrow> 'w MCLink" where
  "register_admin st uid = st\<lparr>bot_admins := bot_admins st @ [uid]\<rparr>"

definition register_role :: "'w MCLink \<Rightarrow> int \<Rightarrow> Permission \<Rightarrow> 'w MCLink" where
  "register_role st rid level = st\<lparr>role_permissions := (role_permissions st)(KInt rid \<mapsto> level)\<rparr>"

definition register_command ::
  "'w MCLink \<Rightarrow> string \<Rightarrow> Permission \<Rightarrow> func \<Rightarrow> string \<Rightarrow> 'w MCLink" where
  "register_command st nm level f h =
     st\<lparr>commands := AList.update nm \<lparr>name = nm, permission = level, func = f, help_text = h\<rparr>
                        (commands st)\<rparr>"

text \<open>
  The tables and the list of administrators are attributes of the class, with the values
  below when the module is loaded; the constructor does not reset them, it only registers
  the help command on what is there, so a later construction sees every earlier
  registration. \<open>MCLink_init\<close> is the first construction.
\<close>

definition class_attributes :: "'w \<Rightarrow> 'w MCLink" where
  "class_attributes w =
     \<lparr>DEBUG = False, rcon_socket = None, link = None, guild_id = None, bot_admins = [],
      commands = [], role_permissions = Map.empty, console = [], sent = [], world = w\<rparr>"

definition MCLink_new :: "'w MCLink \<Rightarrow> 'w MCLink" where
  "MCLink_new st = register_command st ''help'' Default BoundHelp ''Show this help menu''"

definition MCLink_init :: "'w \<Rightarrow> 'w MCLink" where
  "MCLink_init w = MCLink_new (class_attributes w)"

section \<open>Resolving a member's permission level\<close>

text \<open>The text of the error Python raises for an attribute read on \<^verbatim>\<open>None\<close>.\<close>

definition no_attribute :: "string \<Rightarrow> string" where
  "no_attribute a =
     [CHR 0x27] @ ''NoneType'' @ [CHR 0x27] @ '' object has no attribute '' @
     [CHR 0x27] @ a @ [CHR 0x27]"

text \<open>
  \<^verbatim>\<open>get_guild\<close> of the client: the guild with that id, or nothing (also when no guild
  id has been set).
\<close>

definition get_guild :: "DiscordLink \<Rightarrow> int option \<Rightarrow> Guild option" where
  "get_guild l gid = (case gid of None \<Rightarrow> None | Some g \<Rightarrow> guilds l g)"

text \<open>The loop over \<^verbatim>\<open>member.roles\<close>, with the level found so far.\<close>

fun roles_loop :: "(py_key \<rightharpoonup> Permission) \<Rightarrow> Role list \<Rightarrow> Permission \<Rightarrow> exn + Permission" where
  "roles_loop d [] permission_level = Inr permission_level"
| "roles_loop d (role # rest) permission_level =
     (if d (KRole role) \<noteq> None
      then (case d (KInt (role_id role)) of
              None \<Rightarrow> Inl (KeyError (role_id role))
            | Some p \<Rightarrow> roles_loop d rest (py_max permission_level p))
      else roles_loop d rest permission_level)"

definition get_member_permission_level :: "'w MCLink \<Rightarrow> User \<Rightarrow> exn + Permission" where
  "get_member_permission_level st user =
     (case link st of
        None \<Rightarrow> Inl (AttributeError (no_attribute ''get_guild''))
      | Some l \<Rightarrow>
          (case get_guild l (guild_id st) of
             None \<Rightarrow> Inl (AttributeError (no_attribute ''members''))
           | Some guild \<Rightarrow>
               (case find (\<lambda>m. member_id m = user_id user) (members guild) of
                  None \<Rightarrow> Inr Default
                | Some member \<Rightarrow> roles_loop (role_permissions st) (roles member) Default)))"

section \<open>The help command\<close>

definition help_header :: string where
  "help_header =
     ''Hello! I am a Discord -> Minecraft: Java Edition server link!'' @ [CHR 0x0A] @
     ''Here are the commands available to you:'' @ [CHR 0x0A, CHR 0x0A]"

definition help_line :: "Command \<Rightarrow> string" where
  "help_line x = ''* `'' @ name x @ ''` - '' @ help_text x @ [CHR 0x0A]"

fun help_loop :: "Permission \<Rightarrow> Command list \<Rightarrow> string \<Rightarrow> string" where
  "help_loop user_permission [] message = message"
| "help_loop user_permission (x # xs) message =
     help_loop user_permission xs
       (if Permission_ge user_permission (permission x) then message @ help_line x else message)"

definition help_command :: "'w MCLink \<Rightarrow> string list \<Rightarrow> User \<Rightarrow> exn + bool \<times> string" where
  "help_command st args user =
     (case get_member_permission_level st user of
        Inl e \<Rightarrow> Inl e
      | Inr user_permission \<Rightarrow>
          Inr (True, help_loop user_permission (map snd (commands st)) help_header))"

section \<open>The dispatcher\<close>

text \<open>\<^verbatim>\<open>input.split(" ")\<close>: the pieces between single space characters.\<close>

fun split_space :: "string \<Rightarrow> string list" where
  "split_space [] = [[]]"
| "split_space (c # cs) =
     (if c = CHR '' '' then [] # split_space cs
      else (case split_space cs of [] \<Rightarrow> [[c]] | w # ws \<Rightarrow> (c # w) # ws))"

definition run_func ::
  "'w handlers \<Rightarrow> func \<Rightarrow> 'w MCLink \<Rightarrow> string list \<Rightarrow> User \<Rightarrow>
     (exn + (bool \<times> string) option) \<times> 'w MCLink" where
  "run_func H f st args user =
     (case f of
        BoundHelp \<Rightarrow>
          (case help_command st args user of Inl e \<Rightarrow> (Inl e, st) | Inr r \<Rightarrow> (Inr (Some r), st))
      | Ext n \<Rightarrow> H n st args user)"

definition call ::
  "'w handlers \<Rightarrow> 'w MCLink \<Rightarrow> string \<Rightarrow> User \<Rightarrow> (exn + bool \<times> string) \<times> 'w MCLink" where
  "call H st input user =
     (case split_space input of
        [] \<Rightarrow> (Inl IndexError, st)
      | cmd_name # cmd_args \<Rightarrow>
          (case map_of (commands st) cmd_name of
             None \<Rightarrow> (Inr (False, ''Error: Unknown command '' @ [CHR 0x27] @ cmd_name @ [CHR 0x27]), st)
           | Some cmd \<Rightarrow>
               (case get_member_permission_level st user of
                  Inl e \<Rightarrow> (Inl e, st)
                | Inr level \<Rightarrow>
                    if Permission_lt level (permission cmd)
                    then (Inr (False, ''You don't have permission for that command.''), st)
                    else
                      (case run_func H (func cmd)
                              (if DEBUG st then log st (''Running '' @ [CHR 0x27] @ input @ [CHR 0x27])
                               else st)
                              cmd_args user of
                         (Inl e, st') \<Rightarrow> (Inl e, st')
                       | (Inr None, st') \<Rightarrow> (Inr (True, ''No response for command''), st')
                       | (Inr (Some response), st') \<Rightarrow> (Inr response, st')))))"

section \<open>The RCON bridge\<close>

definition execute ::
  "(nat \<Rightarrow> string \<Rightarrow> 'w \<Rightarrow> (exn + string) \<times> 'w) \<Rightarrow> 'w MCLink \<Rightarrow> string \<Rightarrow>
     (exn + string) \<times> 'w MCLink" where
  "execute rcon_command st command =
     (if \<not> is_connected st then (Inr ''RCON is not connected'', st)
      else (case rcon_command (the (rcon_socket st)) command (world st) of
              (r, w') \<Rightarrow> (r, st\<lparr>world := w'\<rparr>)))"

section \<open>The chat adapter\<close>

definition send :: "'w MCLink \<Rightarrow> nat \<Rightarrow> string \<Rightarrow> 'w MCLink" where
  "send st ch text = st\<lparr>sent := sent st @ [(ch, text)]\<rparr>"

definition fault_report :: "string \<Rightarrow> exn \<Rightarrow> string" where
  "fault_report cmd e =
     '':exclamation: An error occurred while trying to run the command '' @ [CHR 0x27] @ cmd @
     [CHR 0x27] @ ''.'' @ [CHR 0x0A] @ ''Please notify the development team.'' @
     [CHR 0x0A, CHR 0x0A] @ ''Exception: '' @ exn_str e"

definition on_message :: "'w handlers \<Rightarrow> 'w MCLink \<Rightarrow> Message \<Rightarrow> 'w MCLink" where
  "on_message H st message =
     (case link st of
        None \<Rightarrow> st
      | Some l \<Rightarrow>
          (let st1 = (if link_DEBUG l
                      then log st (''Message from '' @ user_str (author message) @ '': '' @
                                   content message)
                      else st)
           in if user_id (author message) = user_id (client_user l) \<or> bot (author message)
              then st1
              else if take 1 (content message) = ''!''
              then (case call H st1 (drop 1 (content message)) (author message) of
                      (Inr response, st2) \<Rightarrow>
                        send st2 (channel message)
                          ((if \<not> fst response then ''[FAIL] '' else []) @ snd response)
                    | (Inl e, st2) \<Rightarrow>
                        send (log st2 (fault_report (drop 1 (content message)) e))
                          (channel message) (fault_report (drop 1 (content message)) e))
              else st1))"

section \<open>Joining pieces, and the specification's tokens\<close>

text \<open>\<^verbatim>\<open>" ".join(pieces)\<close>, the inverse of the split above.\<close>

fun join_space :: "string list \<Rightarrow> string" where
  "join_space [] = []"
| "join_space [p] = p"
| "join_space (p # q # ps) = p @ CHR '' '' # join_space (q # ps)"

text \<open>
  The specification's words for the first step of the dispatcher are "split on whitespace":
  the tokens of a string are its maximal runs of characters that are not whitespace
  (space, tab, line feed, vertical tab, form feed, carriage return). This definition follows
  those words, not the source; it is compared with \<open>split_space\<close> below.
\<close>

definition is_whitespace :: "char \<Rightarrow> bool" where
  "is_whitespace c = (c \<in> set [CHR '' '', CHR 0x09, CHR 0x0A, CHR 0x0B, CHR 0x0C, CHR 0x0D])"

fun tokens_from :: "string \<Rightarrow> string \<Rightarrow> string list" where
  "tokens_from cur [] = (if cur = [] then [] else [cur])"
| "tokens_from cur (c # cs) =
     (if is_whitespace c then (if cur = [] then tokens_from [] cs else cur # tokens_from [] cs)
      else tokens_from (cur @ [c]) cs)"

definition whitespace_tokens :: "string \<Rightarrow> string list" where
  "whitespace_tokens s = tokens_from [] s"

section \<open>A small installation\<close>

text \<open>
  One guild with one member who holds role 5; role 5 is registered as \<open>Admin\<close>. Four
  commands beside \<open>help\<close>: one that shows the arguments it was given, one for
  administrators that changes the surroundings, one that raises, one that returns nothing.
\<close>

definition demo_link :: DiscordLink where
  "demo_link =
     \<lparr>link_DEBUG = False,
      client_user = \<lparr>user_id = 0, bot = True, user_str = ''bridge''\<rparr>,
      guilds = [1 \<mapsto> \<lparr>members = [\<lparr>member_id = 7, roles = [\<lparr>role_id = 5\<rparr>]\<rparr>]\<rparr>]\<rparr>"

definition demo_user :: User where
  "demo_user = \<lparr>user_id = 7, bot = False, user_str = ''alice''\<rparr>"

definition demo_handlers :: "nat handlers" where
  "demo_handlers n st args user =
     (if n = 0 then (Inr (Some (True, concat (map (\<lambda>a. ''['' @ a @ '']'') args))), st)
      else if n = 1 then (Inr (Some (False, ''Stopping'')), st\<lparr>world := Suc (world st)\<rparr>)
      else if n = 2 then (Inl (Fault ''kaboom''), st)
      else (Inr None, st))"

definition demo_state :: "nat MCLink" where
  "demo_state =
     register_role
       (register_command
         (register_command
           (register_command
             (register_command
               ((MCLink_init 0)\<lparr>link := Some demo_link, guild_id := Some 1\<rparr>)
               ''say'' Default (Ext 0) ''Echo the arguments'')
             ''stop'' Admin (Ext 1) ''Stop the server'')
           ''boom'' Default (Ext 2) ''Always fails'')
         ''quiet'' Default (Ext 3) ''Says nothing'')
       5 Admin"

definition demo_rcon_command :: "nat \<Rightarrow> string \<Rightarrow> nat \<Rightarrow> (exn + string) \<times> nat" where
  "demo_rcon_command s command w = (Inr (''ran '' @ command), Suc w)"

definition demo_socket_close :: "nat \<Rightarrow> nat \<Rightarrow> nat" where
  "demo_socket_close s w = Suc w"

text \<open>
  The same installation with the client's debug flag set, and its state once the adapter
  has printed an incoming message of the member.
\<close>

definition demo_debug_state :: "nat MCLink" where
  "demo_debug_state = demo_state\<lparr>link := Some (demo_link\<lparr>link_DEBUG := True\<rparr>)\<rparr>"

definition demo_logged_state :: "nat MCLink" where
  "demo_logged_state =
     demo_debug_state\<lparr>console := console demo_debug_state @ [''Message from alice: !boom now'']\<rparr>"

section \<open>Facts about the pieces of the model\<close>

lemma split_space_nonempty: "split_space s \<noteq> []"
  by (induction s) (auto split: list.splits)

lemma join_split_space: "join_space (split_space s) = s"
proof (induction s)
  case Nil
  show ?case by simp
next
  case (Cons c cs)
  show ?case
  proof (cases "c = CHR '' ''")
    case True
    with Cons split_space_nonempty[of cs] show ?thesis
      by (cases "split_space cs") auto
  next
    case False
    with Cons split_space_nonempty[of cs] show ?thesis
      by (cases "split_space cs"; cases "tl (split_space cs)") auto
  qed
qed

lemma split_space_pieces: "p \<in> set (split_space s) \<Longrightarrow> CHR '' '' \<notin> set p"
  by (induction s arbitrary: p) (auto split: if_splits list.splits)

lemma split_space_no_space: "CHR '' '' \<notin> set p \<Longrightarrow> split_space p = [p]"
  by (induction p) auto

lemma split_space_append:
  "CHR '' '' \<notin> set p \<Longrightarrow> split_space (p @ CHR '' '' # s) = p # split_space s"
  by (induction p) auto

lemma split_join_space:
  "ps \<noteq> [] \<Longrightarrow> \<forall>p\<in>set ps. CHR '' '' \<notin> set p \<Longrightarrow> split_space (join_space ps) = ps"
  by (induction ps rule: join_space.induct) (auto simp: split_space_no_space split_space_append)

lemma help_loop_filter:
  "help_loop up xs message =
     message @ concat (map help_line (filter (\<lambda>x. value_of (permission x) \<le> value_of up) xs))"
  by (induction xs arbitrary: message) (auto simp: Permission_ge_def Permission_le_def)

text \<open>
  A table that holds no role object as a key, as every table filled by \<open>register_role\<close>
  is, never raises the level: the test in the loop fails for every role.
\<close>

lemma roles_loop_int_keys:
  "\<forall>r. d (KRole r) = None \<Longrightarrow> roles_loop d rs level = Inr level"
  by (induction rs arbitrary: level) auto

lemma register_role_int_keys:
  "\<forall>r. role_permissions st (KRole r) = None \<Longrightarrow>
   \<forall>r. role_permissions (register_role st rid level) (KRole r) = None"
  by (simp add: register_role_def)

lemmas demo_defs =
  demo_state_def demo_link_def demo_user_def demo_handlers_def MCLink_init_def MCLink_new_def class_attributes_def
  register_command_def register_role_def get_member_permission_level_def get_guild_def

lemmas demo_debug_defs = demo_logged_state_def demo_debug_state_def demo_defs

section \<open>The RCON bridge\<close>

text \<open>
  C5. For every command string, \<open>execute\<close> on a bridge that is not connected returns the
  fixed text "RCON is not connected" as an ordinary result (it does not raise), and leaves
  the state of the bridge as it was.
\<close>

theorem execute_disconnected:
  "\<not> is_connected st \<Longrightarrow> execute rcon_command st command = (Inr ''RCON is not connected'', st)"
  by (simp add: execute_def)

theorem execute_disconnected_witness:
  "\<not> is_connected demo_state \<and>
   execute demo_rcon_command demo_state ''list'' = (Inr ''RCON is not connected'', demo_state)"
proof -
  have h: "\<not> is_connected demo_state"
    by (simp add: is_connected_def demo_defs)
  from h execute_disconnected[OF h, of demo_rcon_command "''list''"] show ?thesis
    by (rule conjI)
qed

text \<open>
  C10. \<open>close\<close> is safe in every state of the bridge: after it the bridge is not
  connected; on a bridge that is not connected it changes nothing; and closing twice is
  the same as closing once.
\<close>

theorem close_idempotent:
  "\<not> is_connected (close socket_close st) \<and>
   (\<not> is_connected st \<longrightarrow> close socket_close st = st) \<and>
   close socket_close (close socket_close st) = close socket_close st"
  by (simp add: close_def is_connected_def)

theorem close_idempotent_witness:
  "\<not> is_connected demo_state \<and> close demo_socket_close demo_state = demo_state \<and>
   is_connected (demo_state\<lparr>rcon_socket := Some 4\<rparr>) \<and>
   \<not> is_connected (close demo_socket_close (demo_state\<lparr>rcon_socket := Some 4\<rparr>))"
proof -
  have h: "\<not> is_connected demo_state"
    by (simp add: is_connected_def demo_defs)
  have c: "is_connected (demo_state\<lparr>rcon_socket := Some 4\<rparr>)"
    by (simp add: is_connected_def)
  from h c close_idempotent[of demo_socket_close demo_state]
    close_idempotent[of demo_socket_close "demo_state\<lparr>rcon_socket := Some 4\<rparr>"]
  show ?thesis by blast
qed

section \<open>The list of administrators\<close>

text \<open>
  The source keeps the administrators in a list and registers by appending, so the list
  itself records how often a user was registered.
\<close>

lemma register_admin_list:
  "bot_admins (register_admin st uid) = bot_admins st @ [uid]"
  by (simp add: register_admin_def)

text \<open>
  C8. The AdminList is the set of the registered users. \<open>register_admin\<close> is an
  idempotent insert into it: registering a user adds that user to the set, registering the
  same user a second time leaves the set as it is after the first, and no other part of
  the state tells the two apart.
\<close>

theorem register_admin_idempotent:
  "set (bot_admins (register_admin st uid)) = insert uid (set (bot_admins st)) \<and>
   set (bot_admins (register_admin (register_admin st uid) uid)) =
     set (bot_admins (register_admin st uid)) \<and>
   (register_admin (register_admin st uid) uid)\<lparr>bot_admins := []\<rparr> =
     (register_admin st uid)\<lparr>bot_admins := []\<rparr>"
  by (simp add: register_admin_def)

section \<open>Dispatching\<close>

text \<open>
  C3, as the specification states it: an input whose first piece is not a registered name
  yields the pair of \<open>False\<close> and the text "Unknown command 'name'". The source puts
  "Error: " before that text, so for "frobnicate" the result is not the one stated.
\<close>

theorem call_unknown_command_counterexample:
  "fst (call demo_handlers demo_state ''frobnicate'' demo_user) \<noteq>
   Inr (False, ''Unknown command '' @ [CHR 0x27] @ ''frobnicate'' @ [CHR 0x27])"
  by (simp add: call_def demo_defs)

text \<open>
  C3, amended. For every input whose first piece is not a registered command name (the
  empty name of an empty input included), \<open>call\<close> returns, as an ordinary result and
  without raising, the pair of \<open>False\<close> and the text "Error: Unknown command 'name'" with
  that first piece in the place of name; the state is unchanged.
\<close>

theorem call_unknown_command:
  "map_of (commands st) (hd (split_space input)) = None \<Longrightarrow>
   call H st input user =
     (Inr (False, ''Error: Unknown command '' @ [CHR 0x27] @ hd (split_space input) @ [CHR 0x27]), st)"
  using split_space_nonempty[of input]
  by (cases "split_space input") (simp_all add: call_def)

theorem call_unknown_command_witness:
  "map_of (commands demo_state) (hd (split_space '''')) = None \<and>
   call demo_handlers demo_state '''' demo_user =
     (Inr (False, ''Error: Unknown command '' @ [CHR 0x27] @ hd (split_space '''') @ [CHR 0x27]), demo_state)
   \<and> hd (split_space '''') = ''''"
proof -
  have h: "map_of (commands demo_state) (hd (split_space '''')) = None"
    by (simp add: demo_defs)
  from h call_unknown_command[OF h, of demo_handlers demo_user] show ?thesis
    by simp
qed

text \<open>
  C4. For every registered command and every user whose resolved level is strictly below
  the level the command requires, \<open>call\<close> returns the pair of \<open>False\<close> and "You don't have
  permission for that command.", whatever the callables of the application are, and the
  state is the one before the call: the command's callable has not run.
\<close>

theorem call_permission_gate:
  "map_of (commands st) (hd (split_space input)) = Some cmd \<Longrightarrow>
   get_member_permission_level st user = Inr level \<Longrightarrow>
   Permission_lt level (permission cmd) \<Longrightarrow>
   call H st input user = (Inr (False, ''You don't have permission for that command.''), st)"
  using split_space_nonempty[of input]
  by (cases "split_space input") (simp_all add: call_def)

theorem call_permission_gate_witness:
  "map_of (commands demo_state) (hd (split_space ''stop now'')) =
     Some \<lparr>name = ''stop'', permission = Admin, func = Ext 1, help_text = ''Stop the server''\<rparr> \<and>
   get_member_permission_level demo_state demo_user = Inr Default \<and>
   Permission_lt Default Admin \<and>
   call demo_handlers demo_state ''stop now'' demo_user =
     (Inr (False, ''You don't have permission for that command.''), demo_state)"
proof -
  have a: "map_of (commands demo_state) (hd (split_space ''stop now'')) =
     Some \<lparr>name = ''stop'', permission = Admin, func = Ext 1, help_text = ''Stop the server''\<rparr>"
    by (simp add: demo_defs)
  have b: "get_member_permission_level demo_state demo_user = Inr Default"
    by (simp add: demo_defs)
  have c: "Permission_lt Default (permission \<lparr>name = ''stop'', permission = Admin, func = Ext 1, help_text = ''Stop the server''\<rparr>)"
    by (simp add: Permission_lt_def)
  from a b c call_permission_gate[OF a b c, of demo_handlers] show ?thesis
    by simp
qed

text \<open>
  C9. On an authorised invocation, when the command's callable returns nothing, \<open>call\<close>
  returns the pair of \<open>True\<close> and "No response for command"; when it returns a pair,
  \<open>call\<close> returns that pair as it is. The state is the one the callable left.
\<close>

theorem call_normalises_response:
  assumes "map_of (commands st) (hd (split_space input)) = Some cmd"
    and "get_member_permission_level st user = Inr level"
    and "\<not> Permission_lt level (permission cmd)"
  shows "(run_func H (func cmd)
            (if DEBUG st then log st (''Running '' @ [CHR 0x27] @ input @ [CHR 0x27]) else st)
            (tl (split_space input)) user = (Inr None, st') \<longrightarrow>
          call H st input user = (Inr (True, ''No response for command''), st')) \<and>
         (run_func H (func cmd)
            (if DEBUG st then log st (''Running '' @ [CHR 0x27] @ input @ [CHR 0x27]) else st)
            (tl (split_space input)) user = (Inr (Some response), st') \<longrightarrow>
          call H st input user = (Inr response, st'))"
  using assms split_space_nonempty[of input]
  by (cases "split_space input") (simp_all add: call_def)

theorem call_normalises_response_witness:
  "call demo_handlers demo_state ''quiet please'' demo_user =
     (Inr (True, ''No response for command''), demo_state) \<and>
   call demo_handlers demo_state ''say hi'' demo_user = (Inr (True, ''[hi]''), demo_state)"
proof -
  have b: "get_member_permission_level demo_state demo_user = Inr Default"
    by (simp add: demo_defs)
  have q1: "map_of (commands demo_state) (hd (split_space ''quiet please'')) =
     Some \<lparr>name = ''quiet'', permission = Default, func = Ext 3, help_text = ''Says nothing''\<rparr>"
    by (simp add: demo_defs)
  have q3: "\<not> Permission_lt Default
     (permission \<lparr>name = ''quiet'', permission = Default, func = Ext 3, help_text = ''Says nothing''\<rparr>)"
    by (simp add: Permission_lt_def)
  have q4: "run_func demo_handlers
       (func \<lparr>name = ''quiet'', permission = Default, func = Ext 3, help_text = ''Says nothing''\<rparr>)
       (if DEBUG demo_state
        then log demo_state (''Running '' @ [CHR 0x27] @ ''quiet please'' @ [CHR 0x27])
        else demo_state)
       (tl (split_space ''quiet please'')) demo_user = (Inr None, demo_state)"
    by (simp add: run_func_def demo_handlers_def)
      (simp add: demo_state_def MCLink_init_def MCLink_new_def class_attributes_def register_command_def register_role_def)
  have s1: "map_of (commands demo_state) (hd (split_space ''say hi'')) =
     Some \<lparr>name = ''say'', permission = Default, func = Ext 0, help_text = ''Echo the arguments''\<rparr>"
    by (simp add: demo_defs)
  have s3: "\<not> Permission_lt Default
     (permission \<lparr>name = ''say'', permission = Default, func = Ext 0, help_text = ''Echo the arguments''\<rparr>)"
    by (simp add: Permission_lt_def)
  have s4: "run_func demo_handlers
       (func \<lparr>name = ''say'', permission = Default, func = Ext 0, help_text = ''Echo the arguments''\<rparr>)
       (if DEBUG demo_state
        then log demo_state (''Running '' @ [CHR 0x27] @ ''say hi'' @ [CHR 0x27])
        else demo_state)
       (tl (split_space ''say hi'')) demo_user = (Inr (Some (True, ''[hi]'')), demo_state)"
    by (simp add: run_func_def demo_handlers_def)
      (simp add: demo_state_def MCLink_init_def MCLink_new_def class_attributes_def register_command_def register_role_def)
  from call_normalises_response[OF q1 b q3, of demo_handlers demo_state "(True, ''[hi]'')"] q4
  have "call demo_handlers demo_state ''quiet please'' demo_user =
     (Inr (True, ''No response for command''), demo_state)"
    by blast
  moreover
  from call_normalises_response[OF s1 b s3, of demo_handlers demo_state "(True, ''[hi]'')"] s4
  have "call demo_handlers demo_state ''say hi'' demo_user = (Inr (True, ''[hi]''), demo_state)"
    by blast
  ultimately show ?thesis by (rule conjI)
qed

text \<open>
  C2, as the specification states it: when a command's callable raises, \<open>call\<close> catches
  the fault and returns a failed pair naming the command. In the source \<open>call\<close> has no
  handler around the invocation: the result for a command that raises is the exception
  itself.
\<close>

theorem handler_fault_counterexample:
  "fst (call demo_handlers demo_state ''boom'' demo_user) = Inl (Fault ''kaboom'')"
  by (simp add: call_def run_func_def Permission_lt_def demo_defs)

text \<open>
  C2, amended. When the callable of a registered command raises on an authorised
  invocation, \<open>call\<close> does not catch the exception: it leaves \<open>call\<close> and reaches the
  caller. The chat adapter catches it there: for a message of a user who is neither the
  client itself nor a bot, whose text is "!" followed by the input, \<open>on_message\<close> (after
  printing the message first when the client's debug flag is set) prints the report
  ":exclamation: An error occurred while trying to run the command 'input'.", "Please
  notify the development team." and "Exception: " with the exception's text, and sends the
  same report to the channel of the message; nothing else is sent.
\<close>

theorem handler_fault_propagates:
  assumes "map_of (commands st) (hd (split_space input)) = Some cmd"
    and "get_member_permission_level st user = Inr level"
    and "\<not> Permission_lt level (permission cmd)"
    and "run_func H (func cmd)
           (if DEBUG st then log st (''Running '' @ [CHR 0x27] @ input @ [CHR 0x27]) else st)
           (tl (split_space input)) user = (Inl e, st')"
  shows "call H st input user = (Inl e, st') \<and>
         (\<forall>st0 l ch.
            link st0 = Some l \<and>
            st = (if link_DEBUG l
                  then st0\<lparr>console := console st0 @
                         [''Message from '' @ user_str user @ '': '' @ CHR ''!'' # input]\<rparr>
                  else st0) \<and>
            user_id user \<noteq> user_id (client_user l) \<and> \<not> bot user \<longrightarrow>
            on_message H st0 \<lparr>author = user, content = CHR ''!'' # input, channel = ch\<rparr> =
              st'\<lparr>console := console st' @
                     [('':exclamation: An error occurred while trying to run the command '' @ [CHR 0x27] @
                 input @ [CHR 0x27] @ ''.'' @ [CHR 0x0A] @ ''Please notify the development team.'' @
                 [CHR 0x0A, CHR 0x0A] @ ''Exception: '' @ exn_str e)],
                  sent := sent st' @
                     [(ch,
                       ('':exclamation: An error occurred while trying to run the command '' @ [CHR 0x27] @
                 input @ [CHR 0x27] @ ''.'' @ [CHR 0x0A] @ ''Please notify the development team.'' @
                 [CHR 0x0A, CHR 0x0A] @ ''Exception: '' @ exn_str e))]\<rparr>)"
proof -
  have c: "call H st input user = (Inl e, st')"
    using assms split_space_nonempty[of input]
    by (cases "split_space input") (simp_all add: call_def)
  show ?thesis
    using c by (auto simp add: on_message_def log_def send_def fault_report_def)
qed

theorem handler_fault_propagates_witness:
  "call demo_handlers demo_state ''boom now'' demo_user = (Inl (Fault ''kaboom''), demo_state) \<and>
   on_message demo_handlers demo_state
       \<lparr>author = demo_user, content = ''!boom now'', channel = 3\<rparr> =
     demo_state\<lparr>console := console demo_state @
        [('':exclamation: An error occurred while trying to run the command '' @ [CHR 0x27] @
          ''boom now'' @ [CHR 0x27] @ ''.'' @ [CHR 0x0A] @ ''Please notify the development team.'' @
          [CHR 0x0A, CHR 0x0A] @ ''Exception: kaboom'')],
       sent := sent demo_state @
        [(3, ('':exclamation: An error occurred while trying to run the command '' @ [CHR 0x27] @
          ''boom now'' @ [CHR 0x27] @ ''.'' @ [CHR 0x0A] @ ''Please notify the development team.'' @
          [CHR 0x0A, CHR 0x0A] @ ''Exception: kaboom''))]\<rparr> \<and>
   on_message demo_handlers demo_debug_state
       \<lparr>author = demo_user, content = ''!boom now'', channel = 3\<rparr> =
     demo_debug_state\<lparr>console := console demo_debug_state @
        [''Message from alice: !boom now'',
         ('':exclamation: An error occurred while trying to run the command '' @ [CHR 0x27] @
          ''boom now'' @ [CHR 0x27] @ ''.'' @ [CHR 0x0A] @ ''Please notify the development team.'' @
          [CHR 0x0A, CHR 0x0A] @ ''Exception: kaboom'')],
       sent := sent demo_debug_state @
        [(3, ('':exclamation: An error occurred while trying to run the command '' @ [CHR 0x27] @
          ''boom now'' @ [CHR 0x27] @ ''.'' @ [CHR 0x0A] @ ''Please notify the development team.'' @
          [CHR 0x0A, CHR 0x0A] @ ''Exception: kaboom''))]\<rparr>"
proof -
  have a: "map_of (commands demo_state) (hd (split_space ''boom now'')) =
     Some \<lparr>name = ''boom'', permission = Default, func = Ext 2, help_text = ''Always fails''\<rparr>"
    by (simp add: demo_defs)
  have b: "get_member_permission_level demo_state demo_user = Inr Default"
    by (simp add: demo_defs)
  have c: "\<not> Permission_lt Default
     (permission \<lparr>name = ''boom'', permission = Default, func = Ext 2, help_text = ''Always fails''\<rparr>)"
    by (simp add: Permission_lt_def)
  have d: "run_func demo_handlers
       (func \<lparr>name = ''boom'', permission = Default, func = Ext 2, help_text = ''Always fails''\<rparr>)
       (if DEBUG demo_state
        then log demo_state (''Running '' @ [CHR 0x27] @ ''boom now'' @ [CHR 0x27])
        else demo_state)
       (tl (split_space ''boom now'')) demo_user = (Inl (Fault ''kaboom''), demo_state)"
    by (simp add: run_func_def demo_handlers_def)
      (simp add: demo_state_def MCLink_init_def MCLink_new_def class_attributes_def
        register_command_def register_role_def)
  have l: "link demo_state = Some demo_link \<and>
           demo_state =
             (if link_DEBUG demo_link
              then demo_state\<lparr>console := console demo_state @
                     [''Message from '' @ user_str demo_user @ '': '' @ CHR ''!'' # ''boom now'']\<rparr>
              else demo_state) \<and>
           user_id demo_user \<noteq> user_id (client_user demo_link) \<and> \<not> bot demo_user"
    by (simp add: demo_state_def MCLink_init_def MCLink_new_def class_attributes_def
        register_command_def register_role_def demo_link_def demo_user_def)
  from handler_fault_propagates[OF a b c d] l
  have "call demo_handlers demo_state ''boom now'' demo_user = (Inl (Fault ''kaboom''), demo_state) \<and>
    on_message demo_handlers demo_state
       \<lparr>author = demo_user, content = CHR ''!'' # ''boom now'', channel = 3\<rparr> =
     demo_state\<lparr>console := console demo_state @
        [('':exclamation: An error occurred while trying to run the command '' @ [CHR 0x27] @
                 ''boom now'' @ [CHR 0x27] @ ''.'' @ [CHR 0x0A] @ ''Please notify the development team.'' @
                 [CHR 0x0A, CHR 0x0A] @ ''Exception: '' @ exn_str (Fault ''kaboom''))],
       sent := sent demo_state @
        [(3, ('':exclamation: An error occurred while trying to run the command '' @ [CHR 0x27] @
                 ''boom now'' @ [CHR 0x27] @ ''.'' @ [CHR 0x0A] @ ''Please notify the development team.'' @
                 [CHR 0x0A, CHR 0x0A] @ ''Exception: '' @ exn_str (Fault ''kaboom'')))]\<rparr>"
    by blast
  then have w1: "call demo_handlers demo_state ''boom now'' demo_user =
      (Inl (Fault ''kaboom''), demo_state) \<and>
    on_message demo_handlers demo_state
       \<lparr>author = demo_user, content = ''!boom now'', channel = 3\<rparr> =
     demo_state\<lparr>console := console demo_state @
        [('':exclamation: An error occurred while trying to run the command '' @ [CHR 0x27] @
          ''boom now'' @ [CHR 0x27] @ ''.'' @ [CHR 0x0A] @ ''Please notify the development team.'' @
          [CHR 0x0A, CHR 0x0A] @ ''Exception: kaboom'')],
       sent := sent demo_state @
        [(3, ('':exclamation: An error occurred while trying to run the command '' @ [CHR 0x27] @
          ''boom now'' @ [CHR 0x27] @ ''.'' @ [CHR 0x0A] @ ''Please notify the development team.'' @
          [CHR 0x0A, CHR 0x0A] @ ''Exception: kaboom''))]\<rparr>"
    by simp
  have a': "map_of (commands demo_logged_state) (hd (split_space ''boom now'')) =
     Some \<lparr>name = ''boom'', permission = Default, func = Ext 2, help_text = ''Always fails''\<rparr>"
    by (simp add: demo_debug_defs)
  have b': "get_member_permission_level demo_logged_state demo_user = Inr Default"
    by (simp add: demo_debug_defs)
  have g': "\<not> DEBUG demo_logged_state"
    by (simp add: demo_debug_defs)
  have d': "run_func demo_handlers
       (func \<lparr>name = ''boom'', permission = Default, func = Ext 2, help_text = ''Always fails''\<rparr>)
       (if DEBUG demo_logged_state
        then log demo_logged_state (''Running '' @ [CHR 0x27] @ ''boom now'' @ [CHR 0x27])
        else demo_logged_state)
       (tl (split_space ''boom now'')) demo_user = (Inl (Fault ''kaboom''), demo_logged_state)"
    by (simp add: g' run_func_def demo_handlers_def)
  have l': "link demo_debug_state = Some (demo_link\<lparr>link_DEBUG := True\<rparr>) \<and>
           demo_logged_state =
             (if link_DEBUG (demo_link\<lparr>link_DEBUG := True\<rparr>)
              then demo_debug_state\<lparr>console := console demo_debug_state @
                     [''Message from '' @ user_str demo_user @ '': '' @ CHR ''!'' # ''boom now'']\<rparr>
              else demo_debug_state) \<and>
           user_id demo_user \<noteq> user_id (client_user (demo_link\<lparr>link_DEBUG := True\<rparr>)) \<and>
           \<not> bot demo_user"
    by (simp add: demo_logged_state_def demo_debug_state_def demo_link_def demo_user_def)
  from handler_fault_propagates[OF a' b' c d'] l'
  have "on_message demo_handlers demo_debug_state
       \<lparr>author = demo_user, content = CHR ''!'' # ''boom now'', channel = 3\<rparr> =
     demo_logged_state\<lparr>console := console demo_logged_state @
        [('':exclamation: An error occurred while trying to run the command '' @ [CHR 0x27] @
                 ''boom now'' @ [CHR 0x27] @ ''.'' @ [CHR 0x0A] @ ''Please notify the development team.'' @
                 [CHR 0x0A, CHR 0x0A] @ ''Exception: '' @ exn_str (Fault ''kaboom''))],
       sent := sent demo_logged_state @
        [(3, ('':exclamation: An error occurred while trying to run the command '' @ [CHR 0x27] @
                 ''boom now'' @ [CHR 0x27] @ ''.'' @ [CHR 0x0A] @ ''Please notify the development team.'' @
                 [CHR 0x0A, CHR 0x0A] @ ''Exception: '' @ exn_str (Fault ''kaboom'')))]\<rparr>"
    by blast
  then have w2: "on_message demo_handlers demo_debug_state
       \<lparr>author = demo_user, content = ''!boom now'', channel = 3\<rparr> =
     demo_debug_state\<lparr>console := console demo_debug_state @
        [''Message from alice: !boom now'',
         ('':exclamation: An error occurred while trying to run the command '' @ [CHR 0x27] @
          ''boom now'' @ [CHR 0x27] @ ''.'' @ [CHR 0x0A] @ ''Please notify the development team.'' @
          [CHR 0x0A, CHR 0x0A] @ ''Exception: kaboom'')],
       sent := sent demo_debug_state @
        [(3, ('':exclamation: An error occurred while trying to run the command '' @ [CHR 0x27] @
          ''boom now'' @ [CHR 0x27] @ ''.'' @ [CHR 0x0A] @ ''Please notify the development team.'' @
          [CHR 0x0A, CHR 0x0A] @ ''Exception: kaboom''))]\<rparr>"
    by (simp add: demo_logged_state_def)
  from w1 w2 show ?thesis
    by blast
qed

section \<open>Splitting the input\<close>

text \<open>
  C7, as the specification states it: the input is split on whitespace, the first token is
  the command name and the remaining tokens are the arguments. The source splits at single
  space characters only. With two spaces between "say" and "hi" the callable receives an
  empty argument before "hi", while the tokens after the first are just "hi"; with a tab
  between them the first token is "say", while the name that is looked up is the whole
  input.
\<close>

theorem call_whitespace_counterexample:
  "fst (call demo_handlers demo_state ''say  hi'' demo_user) = Inr (True, ''[][hi]'') \<and>
   fst (demo_handlers 0 demo_state (tl (whitespace_tokens ''say  hi'')) demo_user) =
     Inr (Some (True, ''[hi]'')) \<and>
   hd (whitespace_tokens (''say'' @ [CHR 0x09] @ ''hi'')) = ''say'' \<and>
   fst (call demo_handlers demo_state (''say'' @ [CHR 0x09] @ ''hi'') demo_user) =
     Inr (False, ''Error: Unknown command '' @ [CHR 0x27] @ ''say'' @ [CHR 0x09] @ ''hi'' @ [CHR 0x27])"
  by (simp add: call_def run_func_def Permission_lt_def whitespace_tokens_def is_whitespace_def
      demo_defs)

text \<open>
  C7, amended. For every input passed to \<open>call\<close>, the input is split at every single
  space character: its pieces are the one non-empty list of strings without a space that
  gives the input back when joined with single spaces (so two spaces in a row, or a space
  at either end, give an empty piece, and no other whitespace character separates). The
  first piece is the command name that is looked up, case-sensitively, and the remaining
  pieces, in order, are the argument list handed to the command's callable.
\<close>

theorem call_splits_at_single_spaces:
  "(split_space input = ps \<longleftrightarrow>
      ps \<noteq> [] \<and> input = join_space ps \<and> (\<forall>p\<in>set ps. CHR '' '' \<notin> set p)) \<and>
   (map_of (commands st) (hd (split_space input)) = None \<longrightarrow>
      call H st input user =
        (Inr (False, ''Error: Unknown command '' @ [CHR 0x27] @ hd (split_space input) @ [CHR 0x27]),
         st)) \<and>
   (\<forall>cmd level.
      map_of (commands st) (hd (split_space input)) = Some cmd \<and>
      get_member_permission_level st user = Inr level \<and>
      \<not> Permission_lt level (permission cmd) \<longrightarrow>
      call H st input user =
        (case run_func H (func cmd)
                (if DEBUG st then log st (''Running '' @ [CHR 0x27] @ input @ [CHR 0x27]) else st)
                (tl (split_space input)) user of
           (Inl e, st') \<Rightarrow> (Inl e, st')
         | (Inr None, st') \<Rightarrow> (Inr (True, ''No response for command''), st')
         | (Inr (Some response), st') \<Rightarrow> (Inr response, st')))"
proof (intro conjI)
  show "split_space input = ps \<longleftrightarrow>
      ps \<noteq> [] \<and> input = join_space ps \<and> (\<forall>p\<in>set ps. CHR '' '' \<notin> set p)"
    using split_space_nonempty[of input] join_split_space[of input]
      split_space_pieces[of _ input] split_join_space[of ps]
    by auto
next
  show "map_of (commands st) (hd (split_space input)) = None \<longrightarrow>
      call H st input user =
        (Inr (False, ''Error: Unknown command '' @ [CHR 0x27] @ hd (split_space input) @ [CHR 0x27]),
         st)"
    using split_space_nonempty[of input]
    by (cases "split_space input") (simp_all add: call_def)
next
  show "\<forall>cmd level.
      map_of (commands st) (hd (split_space input)) = Some cmd \<and>
      get_member_permission_level st user = Inr level \<and>
      \<not> Permission_lt level (permission cmd) \<longrightarrow>
      call H st input user =
        (case run_func H (func cmd)
                (if DEBUG st then log st (''Running '' @ [CHR 0x27] @ input @ [CHR 0x27]) else st)
                (tl (split_space input)) user of
           (Inl e, st') \<Rightarrow> (Inl e, st')
         | (Inr None, st') \<Rightarrow> (Inr (True, ''No response for command''), st')
         | (Inr (Some response), st') \<Rightarrow> (Inr response, st'))"
    using split_space_nonempty[of input]
    by (cases "split_space input") (simp_all add: call_def)
qed

theorem call_splits_at_single_spaces_witness:
  "split_space ''say  hi'' = [''say'', [], ''hi''] \<and>
   ''say  hi'' = join_space [''say'', [], ''hi''] \<and>
   call demo_handlers demo_state ''say  hi'' demo_user = (Inr (True, ''[][hi]''), demo_state) \<and>
   map_of (commands demo_state) (hd (split_space ''frob  x'')) = None \<and>
   call demo_handlers demo_state ''frob  x'' demo_user =
     (Inr (False, ''Error: Unknown command '' @ [CHR 0x27] @ ''frob'' @ [CHR 0x27]), demo_state)"
proof -
  note t = call_splits_at_single_spaces[of "''say  hi''" "[''say'', [], ''hi'']" demo_state
      demo_handlers demo_user]
  have j: "[''say'', [], ''hi''] \<noteq> [] \<and> ''say  hi'' = join_space [''say'', [], ''hi''] \<and>
           (\<forall>p\<in>set [''say'', [], ''hi'']. CHR '' '' \<notin> set p)"
    by simp
  from t j have s: "split_space ''say  hi'' = [''say'', [], ''hi'']"
    by blast
  have a: "map_of (commands demo_state) (hd (split_space ''say  hi'')) =
     Some \<lparr>name = ''say'', permission = Default, func = Ext 0, help_text = ''Echo the arguments''\<rparr>"
    by (simp add: demo_defs)
  have b: "get_member_permission_level demo_state demo_user = Inr Default"
    by (simp add: demo_defs)
  have c: "\<not> Permission_lt Default
     (permission \<lparr>name = ''say'', permission = Default, func = Ext 0, help_text = ''Echo the arguments''\<rparr>)"
    by (simp add: Permission_lt_def)
  have d: "run_func demo_handlers
       (func \<lparr>name = ''say'', permission = Default, func = Ext 0, help_text = ''Echo the arguments''\<rparr>)
       (if DEBUG demo_state
        then log demo_state (''Running '' @ [CHR 0x27] @ ''say  hi'' @ [CHR 0x27])
        else demo_state)
       (tl (split_space ''say  hi'')) demo_user = (Inr (Some (True, ''[][hi]'')), demo_state)"
    by (simp add: run_func_def demo_handlers_def)
      (simp add: demo_state_def MCLink_init_def MCLink_new_def class_attributes_def register_command_def register_role_def)
  from t a b c have "call demo_handlers demo_state ''say  hi'' demo_user =
        (case run_func demo_handlers
                (func \<lparr>name = ''say'', permission = Default, func = Ext 0,
                        help_text = ''Echo the arguments''\<rparr>)
                (if DEBUG demo_state
                 then log demo_state (''Running '' @ [CHR 0x27] @ ''say  hi'' @ [CHR 0x27])
                 else demo_state)
                (tl (split_space ''say  hi'')) demo_user of
           (Inl e, st') \<Rightarrow> (Inl e, st')
         | (Inr None, st') \<Rightarrow> (Inr (True, ''No response for command''), st')
         | (Inr (Some response), st') \<Rightarrow> (Inr response, st'))"
    by blast
  then have r: "call demo_handlers demo_state ''say  hi'' demo_user =
      (Inr (True, ''[][hi]''), demo_state)"
    by (simp only: d prod.case sum.case option.case)
  have u: "map_of (commands demo_state) (hd (split_space ''frob  x'')) = None"
    by (simp add: demo_defs)
  have v: "hd (split_space ''frob  x'') = ''frob''"
    by simp
  from call_splits_at_single_spaces[of "''frob  x''" "[]" demo_state demo_handlers demo_user] u
  have w: "call demo_handlers demo_state ''frob  x'' demo_user =
     (Inr (False, ''Error: Unknown command '' @ [CHR 0x27] @ hd (split_space ''frob  x'') @ [CHR 0x27]),
      demo_state)"
    by blast
  from s j r u w[unfolded v] show ?thesis
    by blast
qed

section \<open>The help command\<close>

text \<open>
  C6. For every user whose level resolves, the message of the help command is the fixed
  heading followed by one line, "* `name` - help text", for each registered command whose
  required level is at most the user's level, in the order of the command table, and by
  nothing else: the commands above the user's level have no line.
\<close>

theorem help_lists_permitted_commands:
  "get_member_permission_level st user = Inr level \<Longrightarrow>
   help_command st args user =
     Inr (True,
       ''Hello! I am a Discord -> Minecraft: Java Edition server link!'' @ [CHR 0x0A] @
       ''Here are the commands available to you:'' @ [CHR 0x0A, CHR 0x0A] @
       concat (map (\<lambda>x. ''* `'' @ name x @ ''` - '' @ help_text x @ [CHR 0x0A])
         (filter (\<lambda>x. value_of (permission x) \<le> value_of level) (map snd (commands st)))))"
proof -
  have l: "help_line = (\<lambda>x. ''* `'' @ name x @ ''` - '' @ help_text x @ [CHR 0x0A])"
    by (rule ext) (simp add: help_line_def)
  assume "get_member_permission_level st user = Inr level"
  then show ?thesis
    by (simp add: help_command_def help_loop_filter help_header_def l)
qed

theorem help_lists_permitted_commands_witness:
  "get_member_permission_level demo_state demo_user = Inr Default \<and>
   map (\<lambda>x. (name x, permission x)) (map snd (commands demo_state)) =
     [(''help'', Default), (''say'', Default), (''stop'', Admin), (''boom'', Default),
      (''quiet'', Default)] \<and>
   help_command demo_state [] demo_user =
     Inr (True,
       ''Hello! I am a Discord -> Minecraft: Java Edition server link!'' @ [CHR 0x0A] @
       ''Here are the commands available to you:'' @ [CHR 0x0A, CHR 0x0A] @
       ''* `help` - Show this help menu'' @ [CHR 0x0A] @
       ''* `say` - Echo the arguments'' @ [CHR 0x0A] @
       ''* `boom` - Always fails'' @ [CHR 0x0A] @
       ''* `quiet` - Says nothing'' @ [CHR 0x0A])"
proof -
  have h: "get_member_permission_level demo_state demo_user = Inr Default"
    by (simp add: demo_defs)
  have n: "map (\<lambda>x. (name x, permission x)) (map snd (commands demo_state)) =
     [(''help'', Default), (''say'', Default), (''stop'', Admin), (''boom'', Default),
      (''quiet'', Default)]"
    by (simp add: demo_defs)
  have c: "map snd (commands demo_state) =
     [\<lparr>name = ''help'', permission = Default, func = BoundHelp, help_text = ''Show this help menu''\<rparr>,
      \<lparr>name = ''say'', permission = Default, func = Ext 0, help_text = ''Echo the arguments''\<rparr>,
      \<lparr>name = ''stop'', permission = Admin, func = Ext 1, help_text = ''Stop the server''\<rparr>,
      \<lparr>name = ''boom'', permission = Default, func = Ext 2, help_text = ''Always fails''\<rparr>,
      \<lparr>name = ''quiet'', permission = Default, func = Ext 3, help_text = ''Says nothing''\<rparr>]"
    by (simp add: demo_defs)
  from help_lists_permitted_commands[OF h, of "[]"]
  have "help_command demo_state [] demo_user =
     Inr (True,
       ''Hello! I am a Discord -> Minecraft: Java Edition server link!'' @ [CHR 0x0A] @
       ''Here are the commands available to you:'' @ [CHR 0x0A, CHR 0x0A] @
       ''* `help` - Show this help menu'' @ [CHR 0x0A] @
       ''* `say` - Echo the arguments'' @ [CHR 0x0A] @
       ''* `boom` - Always fails'' @ [CHR 0x0A] @
       ''* `quiet` - Says nothing'' @ [CHR 0x0A])"
    by (simp add: c)
  with h n show ?thesis
    by blast
qed

section \<open>Resolving the level of a member\<close>

text \<open>
  C1 states that the resolved level is the highest of the levels registered for the roles
  the user holds, and \<open>Default\<close> when there is none. Here role 5 is registered as
  \<open>Admin\<close>, the only member of the guild holds role 5, and the level resolved for that
  member is \<open>Default\<close>: the loop asks whether the role object is a key of the table, which
  holds integers, and so never reads the level registered for the role's id.
\<close>

theorem role_level_ignored:
  "get_guild demo_link (Some 1) = Some \<lparr>members = [\<lparr>member_id = 7, roles = [\<lparr>role_id = 5\<rparr>]\<rparr>]\<rparr> \<and>
   role_permissions
     (register_role ((MCLink_init (0::nat))\<lparr>link := Some demo_link, guild_id := Some 1\<rparr>) 5 Admin)
     (KInt 5) = Some Admin \<and>
   get_member_permission_level
     (register_role ((MCLink_init (0::nat))\<lparr>link := Some demo_link, guild_id := Some 1\<rparr>) 5 Admin)
     demo_user = Inr Default"
  by (simp add: demo_defs)

end
